theory Spec2Isabelle
  imports Complex_Main "HOL-Library.Sublist"
begin

section \<open>JavaScript primitives used by the monitors\<close>

text \<open>
  JavaScript numbers are modelled as \<^typ>\<open>real\<close> where they may carry a fraction and as
  \<^typ>\<open>int\<close> where the source makes them integral (\<open>Math.round\<close>, \<open>parseInt\<close>). The
  rounding error of IEEE doubles and the value \<open>NaN\<close> (a division by a zero total) are not
  part of the model. Strings are byte strings: a character outside ASCII is written as its
  UTF-8 bytes, and a substring search over the bytes agrees with JavaScript's search over
  UTF-16 units on well-formed text.
\<close>

definition Math_round :: "real \<Rightarrow> int" where
  "Math_round x = \<lfloor>x + 1 / 2\<rfloor>"

definition Math_floor :: "real \<Rightarrow> int" where
  "Math_floor x = \<lfloor>x\<rfloor>"

text \<open>The numeric value of \<open>x.toFixed(d)\<close>: the nearest multiple of \<open>10^-d\<close>, a tie
  going away from zero.\<close>

definition toFixed :: "nat \<Rightarrow> real \<Rightarrow> real" where
  "toFixed d x =
     (if x < 0 then - (of_int \<lfloor>- x * 10 ^ d + 1 / 2\<rfloor> / 10 ^ d)
      else of_int \<lfloor>x * 10 ^ d + 1 / 2\<rfloor> / 10 ^ d)"

definition digit :: "nat \<Rightarrow> char" where
  "digit n = ''0123456789'' ! (n mod 10)"

fun show_nat :: "nat \<Rightarrow> string" where
  "show_nat n = (if n < 10 then [digit n] else show_nat (n div 10) @ [digit n])"

declare show_nat.simps [simp del]

text \<open>The text a template literal gives an integral number.\<close>

definition show_int :: "int \<Rightarrow> string" where
  "show_int i = (if i < 0 then CHR ''-'' # show_nat (nat (- i)) else show_nat (nat i))"

text \<open>The text a template literal gives a number with at most two decimals (the result of
  \<open>parseFloat(x.toFixed(2))\<close>): the integral part, then the decimals without trailing zeros.\<close>

definition show_num2 :: "real \<Rightarrow> string" where
  "show_num2 x =
     (let h = Math_round (\<bar>x\<bar> * 100);
          ip = nat (h div 100);
          fr = nat (h mod 100)
      in (if x < 0 \<and> h \<noteq> 0 then ''-'' else '''') @ show_nat ip @
         (if fr = 0 then ''''
          else if fr mod 10 = 0 then CHR ''.'' # [digit (fr div 10)]
          else CHR ''.'' # [digit (fr div 10), digit fr]))"

text \<open>\<open>s.includes(pat)\<close>\<close>

fun includes_str :: "string \<Rightarrow> string \<Rightarrow> bool" where
  "includes_str [] pat = (pat = [])"
| "includes_str (c # cs) pat = (prefix pat (c # cs) \<or> includes_str cs pat)"

text \<open>\<open>s.replace(pat, rep)\<close> with a string pattern: the first occurrence only.\<close>

fun replace_str :: "string \<Rightarrow> string \<Rightarrow> string \<Rightarrow> string" where
  "replace_str [] pat rep = (if pat = [] then rep else [])"
| "replace_str (c # cs) pat rep =
     (if prefix pat (c # cs) then rep @ drop (length pat) (c # cs)
      else c # replace_str cs pat rep)"

text \<open>\<open>xs.slice(-n)\<close>: the last \<open>n\<close> elements, all of them when there are fewer.\<close>

definition slice_last :: "nat \<Rightarrow> 'a list \<Rightarrow> 'a list" where
  "slice_last n xs = drop (length xs - n) xs"

section \<open>The metrics monitor (checkRealAlerts, logCheck, generateSummary)\<close>

subsection \<open>Metrics\<close>

record ads_division =
  tiktokAgents :: int
  googleAgents :: int
  instagramAgents :: int
  linkedinAgents :: int
  ads_totalAgents :: int
  ads_status :: string

record web3_division =
  salesAgents :: int
  devAgents :: int
  portfolioAgents :: int
  web3_totalAgents :: int
  web3_status :: string

record metrics =
  timestamp :: string
  cpuLoad :: real
  memoryUsage :: int
  memoryUsedGB :: int
  memoryTotalGB :: int
  memoryFreeGB :: int
  processCount :: int
  openclawStatus :: string
  nodeProcesses :: int
  diskUsageGB :: int
  uptimeHours :: int
  networkConnections :: int
  hostname :: string
  platform :: string
  arch :: string
  agentHealth :: int
  revenueTarget :: int
  responseTime :: int
  activeAgents :: int
  adsFarmingRevenue :: int
  web3DomainRevenue :: int
  totalRevenue :: int
  adsDivision :: ads_division
  web3Division :: web3_division

text \<open>
  What the operating system answers during one call of \<open>getRealSystemMetrics\<close>. A query
  that can throw (\<open>execSync\<close>, \<open>fs.statSync\<close>) is an option, \<open>None\<close> being the throw; the
  line counts are the numbers \<open>parseInt\<close> reads from the output of \<open>wc -l\<close>. \<open>execSync\<close>
  throws on the exit status of the shell, which is that of the last command of a pipeline:
  when an earlier command fails and prints nothing, nothing is thrown and \<open>wc -l\<close> counts
  no line.
\<close>

record os_reading =
  now_iso :: string
  loadavg1 :: real
  totalmem :: nat
  freemem :: nat
  ps_lines :: "int option"
  openclaw_lines :: "int option"
  node_lines :: "int option"
  root_stat :: "(nat \<times> nat) option"
  uptime :: real
  netstat_lines :: "int option"
  os_hostname :: string
  os_platform :: string
  os_arch :: string

definition GiB :: real where
  "GiB = 1024 * 1024 * 1024"

definition adsDivision_sim :: ads_division where
  "adsDivision_sim =
     \<lparr>tiktokAgents = 4, googleAgents = 4, instagramAgents = 4, linkedinAgents = 3,
      ads_totalAgents = 15, ads_status = ''ACTIVE''\<rparr>"

definition web3Division_sim :: web3_division where
  "web3Division_sim =
     \<lparr>salesAgents = 5, devAgents = 5, portfolioAgents = 5, web3_totalAgents = 15,
      web3_status = ''ACTIVE''\<rparr>"

definition getFallbackMetrics :: "string \<Rightarrow> metrics" where
  "getFallbackMetrics ts =
     \<lparr>timestamp = ts, cpuLoad = 3 / 2, memoryUsage = 85, memoryUsedGB = 12,
      memoryTotalGB = 16, memoryFreeGB = 4, processCount = 400,
      openclawStatus = ''RUNNING'', nodeProcesses = 10, diskUsageGB = 250,
      uptimeHours = 24, networkConnections = 100, hostname = ''localhost'',
      platform = ''darwin'', arch = ''arm64'', agentHealth = 95, revenueTarget = 75,
      responseTime = 20, activeAgents = 53, adsFarmingRevenue = 3250,
      web3DomainRevenue = 2739, totalRevenue = 5989, adsDivision = adsDivision_sim,
      web3Division = web3Division_sim\<rparr>"

text \<open>The inner \<open>try\<close> of \<open>getRealSystemMetrics\<close>: a throw of the process query is caught
  there and becomes the status \<open>ERROR\<close>.\<close>

definition openclaw_status_of :: "int option \<Rightarrow> string" where
  "openclaw_status_of q =
     (case q of None \<Rightarrow> ''ERROR''
      | Some k \<Rightarrow> if k > 0 then ''RUNNING'' else ''STOPPED'')"

definition getRealSystemMetrics :: "os_reading \<Rightarrow> metrics" where
  "getRealSystemMetrics os =
     (let ts = now_iso os;
          cpuUsage = loadavg1 os;
          totalMem = real (totalmem os);
          freeMem = real (freemem os);
          usedMem = totalMem - freeMem;
          memUsage = Math_round (usedMem / totalMem * 100)
      in case ps_lines os of None \<Rightarrow> getFallbackMetrics ts
         | Some ps \<Rightarrow>
      (case node_lines os of None \<Rightarrow> getFallbackMetrics ts
         | Some nodes \<Rightarrow>
      (case root_stat os of None \<Rightarrow> getFallbackMetrics ts
         | Some (blocks, blksize) \<Rightarrow>
      (case netstat_lines os of None \<Rightarrow> getFallbackMetrics ts
         | Some conns \<Rightarrow>
           \<lparr>timestamp = ts,
            cpuLoad = toFixed 2 cpuUsage,
            memoryUsage = memUsage,
            memoryUsedGB = Math_round (usedMem / GiB),
            memoryTotalGB = Math_round (totalMem / GiB),
            memoryFreeGB = Math_round (freeMem / GiB),
            processCount = ps - 1,
            openclawStatus = openclaw_status_of (openclaw_lines os),
            nodeProcesses = nodes,
            diskUsageGB = Math_round (real (blocks * blksize) / GiB),
            uptimeHours = Math_round (uptime os / 3600),
            networkConnections = conns,
            hostname = os_hostname os,
            platform = os_platform os,
            arch = os_arch os,
            agentHealth = 95, revenueTarget = 75, responseTime = 20, activeAgents = 53,
            adsFarmingRevenue = 3250, web3DomainRevenue = 2739, totalRevenue = 5989,
            adsDivision = adsDivision_sim, web3Division = web3Division_sim\<rparr>))))"

subsection \<open>Alert rules\<close>

definition CRITICAL_MARK :: string where
  "CRITICAL_MARK = [CHR 0xF0, CHR 0x9F, CHR 0x94, CHR 0xB4] @ '' CRITICAL''"

definition WARNING_MARK :: string where
  "WARNING_MARK = [CHR 0xF0, CHR 0x9F, CHR 0x9F, CHR 0xA1] @ '' WARNING''"

definition cpu_alert :: "metrics \<Rightarrow> string" where
  "cpu_alert m = ''High CPU load: '' @ show_num2 (cpuLoad m) @ '' (1-minute average)''"

definition memory_critical_alert :: "metrics \<Rightarrow> string" where
  "memory_critical_alert m =
     CRITICAL_MARK @ '': Memory usage: '' @ show_int (memoryUsage m) @ ''% ('' @
     show_int (memoryUsedGB m) @ ''GB/'' @ show_int (memoryTotalGB m) @ ''GB)''"

definition memory_warning_alert :: "metrics \<Rightarrow> string" where
  "memory_warning_alert m =
     WARNING_MARK @ '': High memory usage: '' @ show_int (memoryUsage m) @ ''%''"

definition openclaw_alert :: "metrics \<Rightarrow> string" where
  "openclaw_alert m = ''OpenClaw status: '' @ openclawStatus m"

definition disk_alert :: "metrics \<Rightarrow> string" where
  "disk_alert m = ''High disk usage: '' @ show_int (diskUsageGB m) @ ''GB''"

definition process_alert :: "metrics \<Rightarrow> string" where
  "process_alert m = ''High process count: '' @ show_int (processCount m)"

text \<open>\<open>alerts.push(a)\<close>\<close>

definition push :: "'a list \<Rightarrow> 'a \<Rightarrow> 'a list" where
  "push xs x = xs @ [x]"

definition checkRealAlerts :: "metrics \<Rightarrow> string list" where
  "checkRealAlerts m =
     (let alerts = [];
          alerts = (if cpuLoad m > 5 then push alerts (cpu_alert m) else alerts);
          alerts = (if memoryUsage m > 95 then push alerts (memory_critical_alert m)
                    else if memoryUsage m > 90 then push alerts (memory_warning_alert m)
                    else alerts);
          alerts = (if openclawStatus m \<noteq> ''RUNNING'' then push alerts (openclaw_alert m)
                    else alerts);
          alerts = (if diskUsageGB m > 200 then push alerts (disk_alert m) else alerts);
          alerts = (if processCount m > 500 then push alerts (process_alert m) else alerts)
      in alerts)"

subsection \<open>The log file\<close>

record check_entry =
  ck_timestamp :: string
  ck_metrics :: metrics
  ck_alerts :: "string list option"

text \<open>The object kept in the log file; its inner object \<open>metrics\<close> is flattened into the
  three counters.\<close>

record logs =
  startTime :: string
  checks :: "check_entry list"
  totalChecks :: nat
  totalAlerts :: nat
  systemUptime :: nat

datatype health = HEALTHY | WARNING | CRITICAL

record summary =
  sum_timestamp :: string
  sum_totalChecks :: nat
  sum_totalAlerts :: nat
  systemStatus :: health
  lastCheck :: "string option"

text \<open>
  The files the monitor touches. The log file is absent, holds text that is not a log
  object (\<open>JSON.parse\<close> or the first field access throws), or holds a log object.
  \<open>writable\<close> says whether \<open>fs.writeFileSync\<close> succeeds. Of the report only the values it
  is rendered from are kept, not the HTML text.
\<close>

datatype log_file = Missing | Corrupt | Stored logs

record files =
  log_file :: log_file
  writable :: bool
  report_file :: "(summary \<times> metrics \<times> string list) option"

datatype io_error = ReadFailed | ParseFailed | WriteFailed

definition initializeLogs :: "string \<Rightarrow> files \<Rightarrow> io_error + files" where
  "initializeLogs now fs =
     (if log_file fs = Missing then
        (if writable fs then
           Inr (fs\<lparr>log_file := Stored \<lparr>startTime = now, checks = [], totalChecks = 0,
                                        totalAlerts = 0, systemUptime = 100\<rparr>\<rparr>)
         else Inl WriteFailed)
      else Inr fs)"

definition logCheck :: "files \<Rightarrow> metrics \<Rightarrow> string list \<Rightarrow> io_error + (check_entry \<times> files)" where
  "logCheck fs m alerts =
     (case log_file fs of
        Missing \<Rightarrow> Inl ReadFailed
      | Corrupt \<Rightarrow> Inl ParseFailed
      | Stored lg \<Rightarrow>
          (let check = \<lparr>ck_timestamp = timestamp m, ck_metrics = m,
                        ck_alerts = (if length alerts > 0 then Some alerts else None)\<rparr>;
               lg = lg\<lparr>checks := push (checks lg) check\<rparr>;
               lg = lg\<lparr>totalChecks := totalChecks lg + 1\<rparr>;
               lg = lg\<lparr>totalAlerts := totalAlerts lg + length alerts\<rparr>;
               lg = (if length (checks lg) > 100
                     then lg\<lparr>checks := slice_last 100 (checks lg)\<rparr> else lg)
           in if writable fs then Inr (check, fs\<lparr>log_file := Stored lg\<rparr>)
              else Inl WriteFailed))"

text \<open>\<open>alerts.some(alert => alert.includes('... CRITICAL'))\<close>\<close>

definition hasCritical :: "string list \<Rightarrow> bool" where
  "hasCritical alerts = list_ex (\<lambda>alert. includes_str alert CRITICAL_MARK) alerts"

definition status_of_last :: "check_entry option \<Rightarrow> health" where
  "status_of_last lc =
     (case lc of None \<Rightarrow> HEALTHY
      | Some c \<Rightarrow>
          (case ck_alerts c of None \<Rightarrow> HEALTHY
           | Some alerts \<Rightarrow> if hasCritical alerts then CRITICAL else WARNING))"

definition generateSummary :: "string \<Rightarrow> files \<Rightarrow> io_error + summary" where
  "generateSummary now fs =
     (case log_file fs of
        Missing \<Rightarrow> Inl ReadFailed
      | Corrupt \<Rightarrow> Inl ParseFailed
      | Stored lg \<Rightarrow>
          (let lc = (if checks lg = [] then None else Some (last (checks lg)))
           in Inr \<lparr>sum_timestamp = now,
                   sum_totalChecks = totalChecks lg,
                   sum_totalAlerts = totalAlerts lg,
                   systemStatus = status_of_last lc,
                   lastCheck = map_option ck_timestamp lc\<rparr>))"

definition createRealReport :: "files \<Rightarrow> summary \<Rightarrow> metrics \<Rightarrow> string list \<Rightarrow> io_error + files" where
  "createRealReport fs s m alerts =
     (if writable fs then Inr (fs\<lparr>report_file := Some (s, m, alerts)\<rparr>) else Inl WriteFailed)"

datatype run_result = Success summary metrics "string list" | Failure io_error

text \<open>One monitoring cycle. \<open>t0\<close> and \<open>t1\<close> are the clock readings of \<open>initializeLogs\<close> and
  of \<open>generateSummary\<close>; a throw anywhere in the \<open>try\<close> ends the cycle with \<open>Failure\<close>, the
  files as they were at the throw. What the cycle prints on the console is left out.\<close>

definition runRealMonitoring :: "string \<Rightarrow> string \<Rightarrow> os_reading \<Rightarrow> files \<Rightarrow> run_result \<times> files" where
  "runRealMonitoring t0 t1 os fs =
     (case initializeLogs t0 fs of
        Inl e \<Rightarrow> (Failure e, fs)
      | Inr fs1 \<Rightarrow>
          (let m = getRealSystemMetrics os;
               alerts = checkRealAlerts m
           in case logCheck fs1 m alerts of
                Inl e \<Rightarrow> (Failure e, fs1)
              | Inr (check, fs2) \<Rightarrow>
                  (case generateSummary t1 fs2 of
                     Inl e \<Rightarrow> (Failure e, fs2)
                   | Inr s \<Rightarrow>
                       (case createRealReport fs2 s m alerts of
                          Inl e \<Rightarrow> (Failure e, fs2)
                        | Inr fs3 \<Rightarrow> (Success s m alerts, fs3)))))"

section \<open>The dashboard server (checkService, /api/status, /api/health)\<close>

subsection \<open>Configured services and property reads\<close>

text \<open>The object literal \<open>SERVICES\<close>, its own properties in insertion order (the order
  \<open>Object.entries\<close> gives them in, none of the keys being an array index).\<close>

definition SERVICES :: "(string \<times> string) list" where
  "SERVICES =
     [(''ollama-api'', ''http://localhost:3002/health''),
      (''super-product'', ''http://localhost:3004/health''),
      (''kimi-integration'', ''http://localhost:3006/health''),
      (''system'', ''local'')]"

text \<open>
  What a read \<open>obj[key]\<close> of an object literal with string values can give: \<open>undefined\<close>,
  one of its strings, or a member inherited from \<open>Object.prototype\<close> (a function, or the
  prototype object itself for \<open>__proto__\<close>), which is no string and is truthy.
\<close>

datatype js_value = JUndefined | JString string | JObject

definition Object_prototype_keys :: "string list" where
  "Object_prototype_keys =
     [''constructor'', ''__proto__'', ''hasOwnProperty'', ''isPrototypeOf'',
      ''propertyIsEnumerable'', ''toLocaleString'', ''toString'', ''valueOf'',
      ''__defineGetter__'', ''__defineSetter__'', ''__lookupGetter__'',
      ''__lookupSetter__'']"

definition get_property :: "(string \<times> string) list \<Rightarrow> string \<Rightarrow> js_value" where
  "get_property obj key =
     (case map_of obj key of
        Some v \<Rightarrow> JString v
      | None \<Rightarrow> if key \<in> set Object_prototype_keys then JObject else JUndefined)"

text \<open>\<open>!v\<close>\<close>

definition falsy :: "js_value \<Rightarrow> bool" where
  "falsy v = (v = JUndefined \<or> v = JString [])"

subsection \<open>One probe\<close>

datatype level = healthy | warning | critical

text \<open>
  How the HTTP request of one probe ends: a response with a status code (and the
  \<open>version\<close> field of its body, when it has one) inside the 5000 ms, a network error with
  its message, or no response inside the 5000 ms.
\<close>

datatype http_outcome = Responded nat "string option" | NetworkError string | TimedOut

record axios_response =
  resp_status :: nat
  data_version :: "string option"

text \<open>\<open>axios.get(url, { timeout: 5000 })\<close> with the library's default \<open>validateStatus\<close>:
  the promise is fulfilled by a status from 200 to 299 and rejected, with an error carrying
  a message, by every other end of the request.\<close>

definition axios_get :: "http_outcome \<Rightarrow> string + axios_response" where
  "axios_get out =
     (case out of
        Responded code v \<Rightarrow>
          if 200 \<le> code \<and> code < 300 then Inr \<lparr>resp_status = code, data_version = v\<rparr>
          else Inl (''Request failed with status code '' @ show_nat code)
      | NetworkError msg \<Rightarrow> Inl msg
      | TimedOut \<Rightarrow> Inl ''timeout of 5000ms exceeded'')"

text \<open>What one call of \<open>checkService\<close> sees: the two readings of \<open>Date.now()\<close>, the end of its
  request, and the reading of \<open>new Date().toISOString()\<close>.\<close>

record probe_env =
  start_ms :: int
  end_ms :: int
  outcome :: http_outcome
  stamp :: string

record service_status =
  name :: string
  url :: string
  status :: level
  svc_responseTime :: int
  version :: "string option"
  error :: "string option"
  svc_timestamp :: string
  emoji :: string

definition EMOJI_LAPTOP :: string where
  "EMOJI_LAPTOP = [CHR 0xF0, CHR 0x9F, CHR 0x92, CHR 0xBB]"

definition EMOJI_LLAMA :: string where
  "EMOJI_LLAMA = [CHR 0xF0, CHR 0x9F, CHR 0xA6, CHR 0x99]"

definition EMOJI_PICTURE :: string where
  "EMOJI_PICTURE = [CHR 0xF0, CHR 0x9F, CHR 0x96, CHR 0xBC, CHR 0xEF, CHR 0xB8, CHR 0x8F]"

definition EMOJI_WARNING :: string where
  "EMOJI_WARNING = [CHR 0xE2, CHR 0x9A, CHR 0xA0, CHR 0xEF, CHR 0xB8, CHR 0x8F]"

datatype js_error = TypeError

definition message_of :: "js_error \<Rightarrow> string" where
  "message_of e = (case e of TypeError \<Rightarrow> ''url.replace is not a function'')"

text \<open>
  \<open>checkService(name, url)\<close>. With a string for \<open>url\<close> every path returns a status. With
  anything else \<open>url === 'local'\<close> is false and \<open>url.replace\<close> is no function: whether the
  request is fulfilled or rejected, the \<open>catch\<close> block is entered and throws a TypeError
  itself, so the promise of \<open>checkService\<close> is rejected.
\<close>

definition checkService :: "probe_env \<Rightarrow> string \<Rightarrow> js_value \<Rightarrow> js_error + service_status" where
  "checkService env nm target =
     (let startTime = start_ms env
      in case target of
           JString u \<Rightarrow>
             if u = ''local'' then
               Inr \<lparr>name = nm, url = ''System'', status = healthy, svc_responseTime = 1,
                    version = None, error = None, svc_timestamp = stamp env,
                    emoji = EMOJI_LAPTOP\<rparr>
             else
               (case axios_get (outcome env) of
                  Inr response \<Rightarrow>
                    (let responseTime = end_ms env - startTime
                     in Inr \<lparr>name = nm,
                             url = replace_str u ''http://localhost:'' ''localhost:'',
                             status = healthy,
                             svc_responseTime = responseTime,
                             version = Some (case data_version response of
                                               None \<Rightarrow> ''1.0.0''
                                             | Some v \<Rightarrow> if v = [] then ''1.0.0'' else v),
                             error = None,
                             svc_timestamp = stamp env,
                             emoji = (if includes_str nm ''ollama'' then EMOJI_LLAMA
                                      else EMOJI_PICTURE)\<rparr>)
                | Inl message \<Rightarrow>
                    Inr \<lparr>name = nm,
                         url = replace_str u ''http://localhost:'' ''localhost:'',
                         status = critical,
                         svc_responseTime = end_ms env - startTime,
                         version = None,
                         error = Some message,
                         svc_timestamp = stamp env,
                         emoji = EMOJI_WARNING\<rparr>)
         | JUndefined \<Rightarrow> Inl TypeError
         | JObject \<Rightarrow> Inl TypeError)"

subsection \<open>System metrics of the dashboard\<close>

record cpu_times =
  t_user :: nat
  t_nice :: nat
  t_sys :: nat
  t_idle :: nat
  t_irq :: nat

record statfs_info =
  blocks :: nat
  bsize :: nat
  bfree :: nat

text \<open>What the operating system answers during one call of \<open>getSystemMetrics\<close>;
  \<open>fs.statfsSync\<close> throws an error with a message (\<open>Inl\<close>) or returns the figures of the
  file system.\<close>

record sys_env =
  sys_totalmem :: nat
  sys_freemem :: nat
  sys_platform :: string
  statfsSync :: "string \<Rightarrow> string + statfs_info"
  cpus :: "cpu_times list"
  sys_uptime :: real

text \<open>The strings \<open>toFixed(1)\<close> returns are kept as the numbers they denote.\<close>

record usage_info =
  total :: real
  used :: real
  free :: real
  percent :: real

record system_metrics =
  cpu :: real
  memory :: usage_info
  disk :: usage_info
  uptime_text :: string
  health :: level

text \<open>\<open>x % y\<close> on numbers: the remainder has the sign of \<open>x\<close>.\<close>

definition js_rem :: "real \<Rightarrow> real \<Rightarrow> real" where
  "js_rem x y =
     x - y * of_int (if 0 \<le> x / y then \<lfloor>x / y\<rfloor> else \<lceil>x / y\<rceil>)"

definition cpu_busy :: "cpu_times \<Rightarrow> real" where
  "cpu_busy c =
     (let total = real (t_user c + t_nice c + t_sys c + t_idle c + t_irq c);
          idle = real (t_idle c)
      in (total - idle) / total * 100)"

definition getSystemMetrics :: "sys_env \<Rightarrow> string + system_metrics" where
  "getSystemMetrics env =
     (let totalMem = real (sys_totalmem env) / 1024 / 1024 / 1024;
          freeMem = real (sys_freemem env) / 1024 / 1024 / 1024;
          usedMem = totalMem - freeMem;
          memPercent = toFixed 1 (usedMem / totalMem * 100);
          path = (if sys_platform env = ''darwin'' then ''/System/Volumes/Data'' else ''/'')
      in case statfsSync env path of
           Inl msg \<Rightarrow> Inl msg
         | Inr stats \<Rightarrow>
             (let totalDisk = real (blocks stats * bsize stats) / 1024 / 1024 / 1024;
                  freeDisk = real (bfree stats * bsize stats) / 1024 / 1024 / 1024;
                  usedDisk = totalDisk - freeDisk;
                  diskPercent = toFixed 1 (usedDisk / totalDisk * 100);
                  cpuUsage = foldl (\<lambda>acc c. acc + cpu_busy c) 0 (cpus env)
                               / real (length (cpus env));
                  up = sys_uptime env;
                  days = Math_floor (up / 86400);
                  hours = Math_floor (js_rem up 86400 / 3600);
                  minutes = Math_floor (js_rem up 3600 / 60);
                  uptimeStr = show_int days @ ''d '' @ show_int hours @ ''h '' @
                              show_int minutes @ ''m'';
                  h = (if memPercent > 90 \<or> cpuUsage > 90 then critical
                       else if memPercent > 70 \<or> cpuUsage > 70 then warning
                       else healthy)
              in Inr \<lparr>cpu = toFixed 1 cpuUsage,
                      memory = \<lparr>total = toFixed 1 totalMem, used = toFixed 1 usedMem,
                                free = toFixed 1 freeMem, percent = memPercent\<rparr>,
                      disk = \<lparr>total = toFixed 1 totalDisk, used = toFixed 1 usedDisk,
                              free = toFixed 1 freeDisk, percent = diskPercent\<rparr>,
                      uptime_text = uptimeStr,
                      health = h\<rparr>))"

subsection \<open>Fan-out and fan-in\<close>

text \<open>
  \<open>Promise.all\<close> over tasks whose ends are known (\<open>Inl\<close> a rejection, \<open>Inr\<close> a value),
  settling in the order \<open>order\<close> (indices into the task list). Each fulfilment is stored in
  the slot of its task; the first rejection rejects the whole; the whole is fulfilled, with
  the slots in task order, once every slot is filled, and stays pending otherwise.
\<close>

datatype ('e, 'a) promise = Fulfilled 'a | Rejected 'e | Pending

fun settle :: "nat list \<Rightarrow> ('e + 'a) list \<Rightarrow> 'a option list \<Rightarrow> 'e + 'a option list" where
  "settle [] tasks slots = Inr slots"
| "settle (i # rest) tasks slots =
     (if i < length tasks then
        (case tasks ! i of
           Inl e \<Rightarrow> Inl e
         | Inr v \<Rightarrow> settle rest tasks (slots[i := Some v]))
      else settle rest tasks slots)"

definition Promise_all :: "nat list \<Rightarrow> ('e + 'a) list \<Rightarrow> ('e, 'a list) promise" where
  "Promise_all order tasks =
     (case settle order tasks (replicate (length tasks) None) of
        Inl e \<Rightarrow> Rejected e
      | Inr slots \<Rightarrow>
          if list_all (\<lambda>s. s \<noteq> None) slots then Fulfilled (map the slots) else Pending)"

subsection \<open>The routes\<close>

record platform_info =
  platform_name :: string
  platform_value :: string
  repositories :: nat
  models :: nat
  agents :: nat

record snapshot =
  snap_timestamp :: string
  system :: system_metrics
  services :: "service_status list"
  snap_platform :: platform_info

text \<open>What one request of \<open>/api/status\<close> sees: the system, the environment of the probe of
  each service (by name), the order in which the probes settle, and the clock reading of
  the reply.\<close>

record status_env =
  sys :: sys_env
  probe :: "string \<Rightarrow> probe_env"
  completion :: "nat list"
  reply_stamp :: string

datatype status_reply = StatusOk snapshot | StatusError string | StatusNoReply

text \<open>The handler of \<open>/api/status\<close> over the entries of a services object; \<open>StatusError\<close> is
  the reply 500 of its \<open>catch\<close>, \<open>StatusNoReply\<close> a join that never completes.\<close>

definition api_status_for :: "(string \<times> string) list \<Rightarrow> status_env \<Rightarrow> status_reply" where
  "api_status_for entries env =
     (case getSystemMetrics (sys env) of
        Inl msg \<Rightarrow> StatusError msg
      | Inr systemMetrics \<Rightarrow>
          (case Promise_all (completion env)
                  (map (\<lambda>(nm, u). checkService (probe env nm) nm (JString u)) entries) of
             Rejected e \<Rightarrow> StatusError (message_of e)
           | Pending \<Rightarrow> StatusNoReply
           | Fulfilled serviceChecks \<Rightarrow>
               StatusOk \<lparr>snap_timestamp = reply_stamp env,
                         system = systemMetrics,
                         services = serviceChecks,
                         snap_platform = \<lparr>platform_name = ''AI Business Platform'',
                                          platform_value = [CHR 0xE2, CHR 0x82, CHR 0xAC] @
                                                           ''3,318,300+ annual'',
                                          repositories = 12, models = 6, agents = 53\<rparr>\<rparr>))"

definition api_status :: "status_env \<Rightarrow> status_reply" where
  "api_status env = api_status_for SERVICES env"

datatype health_reply = HealthOk service_status | HealthNotFound string | HealthUnhandled js_error

text \<open>The handler of \<open>/api/health/:service\<close>. It has no \<open>try\<close>: a rejection of
  \<open>checkService\<close> leaves the handler without sending a reply (\<open>HealthUnhandled\<close>).\<close>

definition api_health :: "probe_env \<Rightarrow> string \<Rightarrow> health_reply" where
  "api_health env service =
     (let target = get_property SERVICES service
      in if falsy target then HealthNotFound ''Service not found''
         else (case checkService env service target of
                 Inr st \<Rightarrow> HealthOk st
               | Inl e \<Rightarrow> HealthUnhandled e))"

section \<open>Notions the properties are stated with\<close>

text \<open>\<open>alert.includes('... WARNING')\<close>, the test \<open>createRealReport\<close> uses for the warning
  style of an alert.\<close>

definition hasWarning :: "string list \<Rightarrow> bool" where
  "hasWarning alerts = list_ex (\<lambda>alert. includes_str alert WARNING_MARK) alerts"

text \<open>The rule an alert text comes from, by its fixed leading text: 0 CPU, 1 memory,
  2 OpenClaw status, 3 disk, 4 process count, and 5 for any other text.\<close>

definition rule_index :: "string \<Rightarrow> nat" where
  "rule_index a =
     (if prefix ''High CPU load: '' a then 0
      else if prefix (CRITICAL_MARK @ '': Memory usage: '') a then 1
      else if prefix (WARNING_MARK @ '': High memory usage: '') a then 1
      else if prefix ''OpenClaw status: '' a then 2
      else if prefix ''High disk usage: '' a then 3
      else if prefix ''High process count: '' a then 4
      else 5)"

text \<open>The fields of a metrics value that \<open>checkRealAlerts\<close> reads.\<close>

definition alert_inputs ::
  "metrics \<Rightarrow> real \<times> int \<times> int \<times> int \<times> string \<times> int \<times> int" where
  "alert_inputs m =
     (cpuLoad m, memoryUsage m, memoryUsedGB m, memoryTotalGB m, openclawStatus m,
      diskUsageGB m, processCount m)"

text \<open>The characters a rendered number is made of.\<close>

definition numeric_chars :: "char set" where
  "numeric_chars = set ''-.0123456789''"

text \<open>All queries of \<open>getRealSystemMetrics\<close> that can reach its \<open>catch\<close> succeed.\<close>

definition queries_ok :: "os_reading \<Rightarrow> bool" where
  "queries_ok os =
     (ps_lines os \<noteq> None \<and> node_lines os \<noteq> None \<and> root_stat os \<noteq> None \<and>
      netstat_lines os \<noteq> None)"

text \<open>The memory used ratio \<open>usedMem / totalMem\<close> of a reading is \<open>p / q\<close>.\<close>

definition memory_ratio_is :: "os_reading \<Rightarrow> nat \<Rightarrow> nat \<Rightarrow> bool" where
  "memory_ratio_is os p q =
     (0 < totalmem os \<and> 0 < q \<and>
      (real (totalmem os) - real (freemem os)) * real q = real p * real (totalmem os))"

text \<open>The status the probe of one entry of the services object settles with (a probe of
  a string URL always returns one).\<close>

definition probed :: "status_env \<Rightarrow> string \<times> string \<Rightarrow> service_status" where
  "probed env e = projr (checkService (probe env (fst e)) (fst e) (JString (snd e)))"

subsection \<open>Sample inputs\<close>

text \<open>A machine with 16 GB of memory of which 95.1 percent are used, otherwise quiet.\<close>

definition os_951 :: os_reading where
  "os_951 =
     \<lparr>now_iso = ''2026-01-01T00:00:00.000Z'', loadavg1 = 1, totalmem = 16000000000,
      freemem = 784000000, ps_lines = Some 301, openclaw_lines = Some 1,
      node_lines = Some 4, root_stat = Some (8, 4096), uptime = 7200,
      netstat_lines = Some 40, os_hostname = ''host'', os_platform = ''linux'',
      os_arch = ''x64''\<rparr>"

text \<open>The same machine with every process query failing.\<close>

definition os_down :: os_reading where
  "os_down = os_951\<lparr>ps_lines := None, node_lines := None, netstat_lines := None\<rparr>"

text \<open>The same machine with exactly 90 percent of its memory used.\<close>

definition os_900 :: os_reading where
  "os_900 = os_951\<lparr>freemem := 1600000000\<rparr>"

text \<open>Metrics on which every rule fires.\<close>

definition metrics_busy :: metrics where
  "metrics_busy =
     (getFallbackMetrics ''2026-01-01T00:00:00.000Z'')
       \<lparr>cpuLoad := 13 / 2, memoryUsage := 97, openclawStatus := ''STOPPED'',
        processCount := 600\<rparr>"

definition check_old :: check_entry where
  "check_old = \<lparr>ck_timestamp = ''2025-12-31T00:00:00.000Z'',
                ck_metrics = getFallbackMetrics ''2025-12-31T00:00:00.000Z'',
                ck_alerts = Some [''High disk usage: 250GB'']\<rparr>"

text \<open>A log that holds exactly 100 checks.\<close>

definition logs_full :: logs where
  "logs_full = \<lparr>startTime = ''2025-12-01T00:00:00.000Z'', checks = replicate 100 check_old,
                totalChecks = 100, totalAlerts = 100, systemUptime = 100\<rparr>"

definition files_full :: files where
  "files_full = \<lparr>log_file = Stored logs_full, writable = True, report_file = None\<rparr>"

text \<open>A log that holds one check.\<close>

definition logs_short :: logs where
  "logs_short = \<lparr>startTime = ''2025-12-01T00:00:00.000Z'', checks = [check_old],
                 totalChecks = 1, totalAlerts = 1, systemUptime = 100\<rparr>"

definition files_short :: files where
  "files_short = \<lparr>log_file = Stored logs_short, writable = True, report_file = None\<rparr>"

text \<open>The first machine with the OpenClaw process query failing.\<close>

definition os_noclaw :: os_reading where
  "os_noclaw = os_951\<lparr>openclaw_lines := None\<rparr>"

text \<open>A machine on which every query succeeds and whose answers are those the fallback
  value is made of: 16 GiB of memory with 4 GiB free, load 1.5, 400 processes.\<close>

definition os_twin :: os_reading where
  "os_twin =
     \<lparr>now_iso = ''2026-01-01T00:00:00.000Z'', loadavg1 = 3 / 2, totalmem = 17179869184,
      freemem = 4294967296, ps_lines = Some 401, openclaw_lines = Some 2,
      node_lines = Some 10, root_stat = Some (65536000, 4096), uptime = 86400,
      netstat_lines = Some 100, os_hostname = ''localhost'', os_platform = ''darwin'',
      os_arch = ''arm64''\<rparr>"

text \<open>The first machine with \<open>ps\<close> failing inside the pipeline \<open>ps aux | wc -l\<close>: nothing
  is thrown and no line is counted.\<close>

definition os_psfail :: os_reading where
  "os_psfail = os_951\<lparr>ps_lines := Some 0\<rparr>"

text \<open>The busy metrics read at another time on another host.\<close>

definition metrics_busy_later :: metrics where
  "metrics_busy_later =
     metrics_busy\<lparr>timestamp := ''2026-01-02T00:00:00.000Z'', hostname := ''other'',
                  uptimeHours := 48\<rparr>"

definition files_new :: files where
  "files_new = \<lparr>log_file = Missing, writable = True, report_file = None\<rparr>"

definition probe_ok :: probe_env where
  "probe_ok = \<lparr>start_ms = 1000, end_ms = 1012, outcome = Responded 200 (Some ''2.1.0''),
               stamp = ''2026-01-01T00:00:00.012Z''\<rparr>"

text \<open>A probe answered with 200 while the wall clock was set back by 10 ms.\<close>

definition probe_stepback :: probe_env where
  "probe_stepback = \<lparr>start_ms = 1000, end_ms = 990, outcome = Responded 200 (Some ''2.1.0''),
                     stamp = ''2026-01-01T00:00:00.990Z''\<rparr>"

definition probe_timeout :: probe_env where
  "probe_timeout = \<lparr>start_ms = 1000, end_ms = 6001, outcome = TimedOut,
                    stamp = ''2026-01-01T00:00:05.001Z''\<rparr>"

definition sys_ok :: sys_env where
  "sys_ok =
     \<lparr>sys_totalmem = 16000000000, sys_freemem = 8000000000, sys_platform = ''linux'',
      statfsSync = (\<lambda>p. Inr \<lparr>blocks = 1000000, bsize = 4096, bfree = 500000\<rparr>),
      cpus = [\<lparr>t_user = 10, t_nice = 0, t_sys = 10, t_idle = 80, t_irq = 0\<rparr>],
      sys_uptime = 90061\<rparr>"

definition sys_nodisk :: sys_env where
  "sys_nodisk = sys_ok\<lparr>statfsSync := (\<lambda>p. Inl ''ENOENT: no such file or directory, statfs'')\<rparr>"

definition status_env_sample :: status_env where
  "status_env_sample =
     \<lparr>sys = sys_ok,
      probe = (\<lambda>nm. if nm = ''super-product'' then probe_timeout else probe_ok),
      completion = [3, 1, 0, 2],
      reply_stamp = ''2026-01-01T00:00:05.002Z''\<rparr>"

text \<open>The same request with every remote service timing out.\<close>

definition status_env_down :: status_env where
  "status_env_down = status_env_sample\<lparr>probe := (\<lambda>nm. probe_timeout)\<rparr>"

section \<open>Facts about the primitives\<close>

lemma digit_in: "digit n \<in> set ''0123456789''"
  unfolding digit_def by (rule nth_mem) simp

lemma show_nat_chars: "set (show_nat n) \<subseteq> set ''0123456789''"
proof (induction n rule: show_nat.induct)
  case (1 n)
  show ?case
  proof (cases "n < 10")
    case True
    then show ?thesis using digit_in[of n] by (subst show_nat.simps) simp
  next
    case False
    then show ?thesis using 1 digit_in[of n] by (subst show_nat.simps) simp
  qed
qed

lemma show_nat_nonempty: "show_nat n \<noteq> []"
  by (subst show_nat.simps) simp

lemma digits_numeric: "set ''0123456789'' \<subseteq> numeric_chars"
  by (simp add: numeric_chars_def)

lemma digit_numeric: "digit n \<in> numeric_chars"
  using digit_in[of n] digits_numeric by (rule subsetD[rotated])

lemma show_nat_numeric: "set (show_nat n) \<subseteq> numeric_chars"
  using show_nat_chars[of n] digits_numeric by (rule subset_trans)

lemma show_int_numeric: "set (show_int i) \<subseteq> numeric_chars"
proof (cases "i < 0")
  case True
  have "CHR ''-'' \<in> numeric_chars" by (simp add: numeric_chars_def)
  with True show ?thesis using show_nat_numeric[of "nat (- i)"] by (simp add: show_int_def)
next
  case False
  then show ?thesis using show_nat_numeric[of "nat i"] by (simp add: show_int_def)
qed

lemma show_num2_numeric: "set (show_num2 x) \<subseteq> numeric_chars"
proof -
  have m: "CHR ''-'' \<in> numeric_chars" and p: "CHR ''.'' \<in> numeric_chars"
    by (simp_all add: numeric_chars_def)
  show ?thesis
    unfolding show_num2_def Let_def
    using m p digit_numeric show_nat_numeric by (simp add: subset_iff)
qed

lemma includes_str_set: "includes_str s p \<Longrightarrow> set p \<subseteq> set s"
proof (induction s)
  case Nil
  then show ?case by simp
next
  case (Cons c cs)
  from Cons.prems have "prefix p (c # cs) \<or> includes_str cs p" by simp
  then show ?case
  proof
    assume "prefix p (c # cs)"
    then show ?thesis by (rule set_mono_prefix)
  next
    assume "includes_str cs p"
    then have "set p \<subseteq> set cs" by (rule Cons.IH)
    then show ?thesis by auto
  qed
qed

lemma includes_str_prefix: "includes_str (p @ s) p"
proof (cases "p @ s")
  case Nil
  then show ?thesis by simp
next
  case (Cons a l)
  have "prefix p (p @ s)" by simp
  with Cons have "prefix p (a # l)" by simp
  then show ?thesis using Cons by simp
qed

text \<open>No rendered number holds a byte of the two marks.\<close>

lemma numeric_no_mark:
  "CHR 0xF0 \<notin> numeric_chars" "CHR 0x94 \<notin> numeric_chars" "CHR 0xA1 \<notin> numeric_chars"
  by (simp_all add: numeric_chars_def)

lemma show_int_no_mark:
  "CHR 0xF0 \<notin> set (show_int i)" "CHR 0x94 \<notin> set (show_int i)" "CHR 0xA1 \<notin> set (show_int i)"
  using show_int_numeric[of i] numeric_no_mark by blast+

lemma show_num2_no_mark: "CHR 0xF0 \<notin> set (show_num2 x)"
  using show_num2_numeric[of x] numeric_no_mark by blast

lemma show_int_95: "show_int 95 = ''95''"
  by code_simp

lemma show_int_250: "show_int 250 = ''250''"
  by code_simp

lemma last_slice_last: "0 < n \<Longrightarrow> last (slice_last n (xs @ [c])) = c"
  by (cases n) (simp_all add: slice_last_def)

lemma slice_last_nonempty: "0 < n \<Longrightarrow> slice_last n (xs @ [c]) \<noteq> []"
  by (cases n) (simp_all add: slice_last_def)

section \<open>Alert rules\<close>

lemma checkRealAlerts_rules:
  "checkRealAlerts m =
     (if cpuLoad m > 5 then [cpu_alert m] else []) @
     (if memoryUsage m > 95 then [memory_critical_alert m]
      else if memoryUsage m > 90 then [memory_warning_alert m] else []) @
     (if openclawStatus m \<noteq> ''RUNNING'' then [openclaw_alert m] else []) @
     (if diskUsageGB m > 200 then [disk_alert m] else []) @
     (if processCount m > 500 then [process_alert m] else [])"
  by (simp add: checkRealAlerts_def Let_def push_def)

lemma no_lead_no_mark:
  assumes "CHR 0xF0 \<notin> set a"
  shows "\<not> includes_str a CRITICAL_MARK" and "\<not> includes_str a WARNING_MARK"
proof -
  have "CHR 0xF0 \<in> set CRITICAL_MARK" "CHR 0xF0 \<in> set WARNING_MARK"
    by (simp_all add: CRITICAL_MARK_def WARNING_MARK_def)
  with assms show "\<not> includes_str a CRITICAL_MARK" "\<not> includes_str a WARNING_MARK"
    using includes_str_set by blast+
qed

lemma cpu_alert_unmarked: "CHR 0xF0 \<notin> set (cpu_alert m)"
  using show_num2_no_mark by (simp add: cpu_alert_def)

lemma disk_alert_unmarked: "CHR 0xF0 \<notin> set (disk_alert m)"
  using show_int_no_mark by (simp add: disk_alert_def)

lemma process_alert_unmarked: "CHR 0xF0 \<notin> set (process_alert m)"
  using show_int_no_mark by (simp add: process_alert_def)

lemma openclaw_alert_unmarked:
  "openclawStatus m \<in> {''RUNNING'', ''STOPPED'', ''ERROR''} \<Longrightarrow> CHR 0xF0 \<notin> set (openclaw_alert m)"
  by (auto simp: openclaw_alert_def)

lemma memory_critical_marks:
  "includes_str (memory_critical_alert m) CRITICAL_MARK"
  "\<not> includes_str (memory_critical_alert m) WARNING_MARK"
proof -
  show "includes_str (memory_critical_alert m) CRITICAL_MARK"
    unfolding memory_critical_alert_def by (rule includes_str_prefix)
  have "CHR 0xA1 \<notin> set (memory_critical_alert m)"
    using show_int_no_mark by (simp add: memory_critical_alert_def CRITICAL_MARK_def)
  moreover have "CHR 0xA1 \<in> set WARNING_MARK" by (simp add: WARNING_MARK_def)
  ultimately show "\<not> includes_str (memory_critical_alert m) WARNING_MARK"
    using includes_str_set by blast
qed

lemma memory_warning_marks:
  "includes_str (memory_warning_alert m) WARNING_MARK"
  "\<not> includes_str (memory_warning_alert m) CRITICAL_MARK"
proof -
  show "includes_str (memory_warning_alert m) WARNING_MARK"
    unfolding memory_warning_alert_def by (rule includes_str_prefix)
  have "CHR 0x94 \<notin> set (memory_warning_alert m)"
    using show_int_no_mark by (simp add: memory_warning_alert_def WARNING_MARK_def)
  moreover have "CHR 0x94 \<in> set CRITICAL_MARK" by (simp add: CRITICAL_MARK_def)
  ultimately show "\<not> includes_str (memory_warning_alert m) CRITICAL_MARK"
    using includes_str_set by blast
qed

text \<open>With a plain process status the marks are carried by the memory alerts alone.\<close>

lemma alert_marks:
  assumes "openclawStatus m \<in> {''RUNNING'', ''STOPPED'', ''ERROR''}"
  shows "hasCritical (checkRealAlerts m) = (memoryUsage m > 95)"
    and "hasWarning (checkRealAlerts m) = (90 < memoryUsage m \<and> memoryUsage m \<le> 95)"
  using no_lead_no_mark [OF cpu_alert_unmarked, of m]
        no_lead_no_mark [OF disk_alert_unmarked, of m]
        no_lead_no_mark [OF process_alert_unmarked, of m]
        no_lead_no_mark [OF openclaw_alert_unmarked [OF assms]]
        memory_critical_marks [of m] memory_warning_marks [of m]
  by (simp_all add: hasCritical_def hasWarning_def checkRealAlerts_rules)

lemma real_memory_fields:
  assumes "queries_ok os"
  shows "memoryUsage (getRealSystemMetrics os) =
           Math_round ((real (totalmem os) - real (freemem os)) / real (totalmem os) * 100)"
    and "memoryUsedGB (getRealSystemMetrics os) =
           Math_round ((real (totalmem os) - real (freemem os)) / GiB)"
    and "memoryTotalGB (getRealSystemMetrics os) = Math_round (real (totalmem os) / GiB)"
    and "openclawStatus (getRealSystemMetrics os) = openclaw_status_of (openclaw_lines os)"
  using assms
  by (auto simp: queries_ok_def getRealSystemMetrics_def Let_def split: option.splits)

lemma real_status_plain:
  "queries_ok os \<Longrightarrow>
   openclawStatus (getRealSystemMetrics os) \<in> {''RUNNING'', ''STOPPED'', ''ERROR''}"
  by (simp add: real_memory_fields openclaw_status_of_def split: option.splits)

lemma ratio_percent:
  assumes "memory_ratio_is os p q"
  shows "(real (totalmem os) - real (freemem os)) / real (totalmem os) * 100
           = real p * 100 / real q"
  using assms by (simp add: memory_ratio_is_def field_simps)

lemma os_951_metrics:
  "getRealSystemMetrics os_951 =
     \<lparr>timestamp = ''2026-01-01T00:00:00.000Z'', cpuLoad = 1, memoryUsage = 95,
      memoryUsedGB = 14, memoryTotalGB = 15, memoryFreeGB = 1, processCount = 300,
      openclawStatus = ''RUNNING'', nodeProcesses = 4, diskUsageGB = 0, uptimeHours = 2,
      networkConnections = 40, hostname = ''host'', platform = ''linux'', arch = ''x64'',
      agentHealth = 95, revenueTarget = 75, responseTime = 20, activeAgents = 53,
      adsFarmingRevenue = 3250, web3DomainRevenue = 2739, totalRevenue = 5989,
      adsDivision = adsDivision_sim, web3Division = web3Division_sim\<rparr>"
  by (simp add: getRealSystemMetrics_def os_951_def Let_def Math_round_def toFixed_def GiB_def
                openclaw_status_of_def)

text \<open>
  C1, as the claim states it, fails: a machine whose memory used ratio is exactly 0.951
  gets the rounded percentage 95, which is not above 95, so the memory alert carries the
  WARNING mark and no alert carries the CRITICAL mark.
\<close>

theorem memory_critical_at_951_counterexample:
  "queries_ok os_951 \<and> memory_ratio_is os_951 951 1000 \<and>
   checkRealAlerts (getRealSystemMetrics os_951) = [WARNING_MARK @ '': High memory usage: 95%''] \<and>
   \<not> hasCritical (checkRealAlerts (getRealSystemMetrics os_951))"
  by (simp add: os_951_metrics checkRealAlerts_rules memory_warning_alert_def show_int_95
        hasCritical_def WARNING_MARK_def CRITICAL_MARK_def)
     (simp add: queries_ok_def memory_ratio_is_def os_951_def)

text \<open>
  C1, amended. For every reading of the system whose queries succeed: when the memory
  used ratio is exactly 0.951 the percentage is rounded to 95 and the alert rules produce
  the WARNING-marked memory alert and no CRITICAL-marked alert; when the ratio is exactly
  0.90 the percentage is 90 and no alert carries either mark; and a CRITICAL-marked alert
  is produced exactly when the rounded percentage is above 95.
\<close>

theorem memory_alert_bands:
  assumes "queries_ok os"
  shows "(memory_ratio_is os 951 1000 \<longrightarrow>
            memoryUsage (getRealSystemMetrics os) = 95 \<and>
            memory_warning_alert (getRealSystemMetrics os)
              \<in> set (checkRealAlerts (getRealSystemMetrics os)) \<and>
            hasWarning (checkRealAlerts (getRealSystemMetrics os)) \<and>
            \<not> hasCritical (checkRealAlerts (getRealSystemMetrics os))) \<and>
         (memory_ratio_is os 90 100 \<longrightarrow>
            memoryUsage (getRealSystemMetrics os) = 90 \<and>
            \<not> hasWarning (checkRealAlerts (getRealSystemMetrics os)) \<and>
            \<not> hasCritical (checkRealAlerts (getRealSystemMetrics os))) \<and>
         (hasCritical (checkRealAlerts (getRealSystemMetrics os)) \<longleftrightarrow>
            95 < memoryUsage (getRealSystemMetrics os))"
proof -
  let ?m = "getRealSystemMetrics os"
  note marks = alert_marks [OF real_status_plain [OF assms]]
  have a: "memoryUsage ?m = 95" if "memory_ratio_is os 951 1000"
  proof -
    have "memoryUsage ?m = Math_round (real 951 * 100 / real 1000)"
      by (simp only: real_memory_fields [OF assms] ratio_percent [OF that])
    also have "\<dots> = 95" by (simp add: Math_round_def)
    finally show ?thesis .
  qed
  have b: "memoryUsage ?m = 90" if "memory_ratio_is os 90 100"
  proof -
    have "memoryUsage ?m = Math_round (real 90 * 100 / real 100)"
      by (simp only: real_memory_fields [OF assms] ratio_percent [OF that])
    also have "\<dots> = 90" by (simp add: Math_round_def)
    finally show ?thesis .
  qed
  have c: "memory_warning_alert ?m \<in> set (checkRealAlerts ?m)" if "memoryUsage ?m = 95"
    using that by (simp add: checkRealAlerts_rules)
  show ?thesis using a b c marks by auto
qed

theorem memory_alert_bands_witness:
  "queries_ok os_951 \<and> memory_ratio_is os_951 951 1000 \<and>
   memoryUsage (getRealSystemMetrics os_951) = 95 \<and>
   hasWarning (checkRealAlerts (getRealSystemMetrics os_951)) \<and>
   \<not> hasCritical (checkRealAlerts (getRealSystemMetrics os_951)) \<and>
   queries_ok os_900 \<and> memory_ratio_is os_900 90 100 \<and>
   memoryUsage (getRealSystemMetrics os_900) = 90 \<and>
   \<not> hasWarning (checkRealAlerts (getRealSystemMetrics os_900)) \<and>
   \<not> hasCritical (checkRealAlerts (getRealSystemMetrics os_900))"
proof -
  have q: "queries_ok os_951" "queries_ok os_900"
    by (simp_all add: queries_ok_def os_900_def os_951_def)
  have r: "memory_ratio_is os_951 951 1000" "memory_ratio_is os_900 90 100"
    by (simp_all add: memory_ratio_is_def os_900_def os_951_def)
  show ?thesis
    using q r memory_alert_bands [OF q(1)] memory_alert_bands [OF q(2)] by blast
qed

text \<open>The rule index of each alert text.\<close>

lemma rule_index_cpu: "rule_index (cpu_alert m) = 0"
  by (simp add: rule_index_def cpu_alert_def)

lemma rule_index_memory_critical: "rule_index (memory_critical_alert m) = 1"
  by (simp add: rule_index_def memory_critical_alert_def CRITICAL_MARK_def)

lemma rule_index_memory_warning: "rule_index (memory_warning_alert m) = 1"
  by (simp add: rule_index_def memory_warning_alert_def WARNING_MARK_def CRITICAL_MARK_def)

lemma rule_index_openclaw: "rule_index (openclaw_alert m) = 2"
  by (simp add: rule_index_def openclaw_alert_def WARNING_MARK_def CRITICAL_MARK_def)

lemma rule_index_disk: "rule_index (disk_alert m) = 3"
  by (simp add: rule_index_def disk_alert_def WARNING_MARK_def CRITICAL_MARK_def)

lemma rule_index_process: "rule_index (process_alert m) = 4"
  by (simp add: rule_index_def process_alert_def WARNING_MARK_def CRITICAL_MARK_def)

lemmas rule_index_simps = rule_index_cpu rule_index_memory_critical rule_index_memory_warning
  rule_index_openclaw rule_index_disk rule_index_process

lemma busy_numbers:
  "show_num2 (13 / 2) = ''6.5''" "show_int 97 = ''97''" "show_int 12 = ''12''"
  "show_int 16 = ''16''" "show_int 600 = ''600''"
  by code_simp+

text \<open>
  C9. The alert sequence is a fixed function of the metrics: it is the alert of the CPU
  rule when the load is above 5, then the memory alert (critical above 95, else warning
  above 90), then the OpenClaw status alert when the status is not \<open>RUNNING\<close>, then the
  disk alert above 200, then the process count alert above 500, each rule contributing at
  most one alert and always in this order. Two metrics values that agree on the fields the
  rules read give equal sequences, whatever their other fields, and the rule indices of
  every sequence are strictly increasing.
\<close>

theorem checkRealAlerts_deterministic_rule_order:
  "checkRealAlerts m =
     (if cpuLoad m > 5 then [cpu_alert m] else []) @
     (if memoryUsage m > 95 then [memory_critical_alert m]
      else if memoryUsage m > 90 then [memory_warning_alert m] else []) @
     (if openclawStatus m \<noteq> ''RUNNING'' then [openclaw_alert m] else []) @
     (if diskUsageGB m > 200 then [disk_alert m] else []) @
     (if processCount m > 500 then [process_alert m] else []) \<and>
   (alert_inputs m = alert_inputs m' \<longrightarrow> checkRealAlerts m = checkRealAlerts m') \<and>
   sorted_wrt (<) (map rule_index (checkRealAlerts m)) \<and>
   list_all (\<lambda>a. rule_index a < 5) (checkRealAlerts m)"
proof -
  have same: "checkRealAlerts m = checkRealAlerts m'" if "alert_inputs m = alert_inputs m'"
    using that
    by (simp add: alert_inputs_def checkRealAlerts_rules cpu_alert_def
          memory_critical_alert_def memory_warning_alert_def openclaw_alert_def
          disk_alert_def process_alert_def)
  have order: "sorted_wrt (<) (map rule_index (checkRealAlerts m))"
              "list_all (\<lambda>a. rule_index a < 5) (checkRealAlerts m)"
    by (simp_all add: checkRealAlerts_rules rule_index_simps)
  show ?thesis using same order checkRealAlerts_rules [of m] by blast
qed

theorem checkRealAlerts_deterministic_rule_order_witness:
  "alert_inputs metrics_busy = alert_inputs metrics_busy_later \<and>
   metrics_busy \<noteq> metrics_busy_later \<and>
   checkRealAlerts metrics_busy = checkRealAlerts metrics_busy_later \<and>
   checkRealAlerts metrics_busy =
     [''High CPU load: 6.5 (1-minute average)'',
      CRITICAL_MARK @ '': Memory usage: 97% (12GB/16GB)'',
      ''OpenClaw status: STOPPED'',
      ''High disk usage: 250GB'',
      ''High process count: 600''] \<and>
   map rule_index (checkRealAlerts metrics_busy) = [0, 1, 2, 3, 4]"
proof -
  have i: "alert_inputs metrics_busy = alert_inputs metrics_busy_later"
    by (simp add: alert_inputs_def metrics_busy_later_def)
  have d: "metrics_busy \<noteq> metrics_busy_later"
  proof
    assume "metrics_busy = metrics_busy_later"
    then have "hostname metrics_busy = hostname metrics_busy_later" by simp
    then show False
      by (simp add: metrics_busy_later_def metrics_busy_def getFallbackMetrics_def)
  qed
  note t = checkRealAlerts_deterministic_rule_order [of metrics_busy metrics_busy_later]
  from t i have e: "checkRealAlerts metrics_busy = checkRealAlerts metrics_busy_later"
    by blast
  from t have l: "checkRealAlerts metrics_busy =
     [''High CPU load: 6.5 (1-minute average)'',
      CRITICAL_MARK @ '': Memory usage: 97% (12GB/16GB)'',
      ''OpenClaw status: STOPPED'',
      ''High disk usage: 250GB'',
      ''High process count: 600'']"
    by (simp add: metrics_busy_def getFallbackMetrics_def cpu_alert_def
          memory_critical_alert_def openclaw_alert_def disk_alert_def process_alert_def
          busy_numbers show_int_250)
  have r: "map rule_index (checkRealAlerts metrics_busy) = [0, 1, 2, 3, 4]"
    unfolding l by (simp add: rule_index_def CRITICAL_MARK_def WARNING_MARK_def)
  from i d e l r show ?thesis by (intro conjI)
qed

section \<open>The log and the monitoring cycle\<close>

lemma logCheck_stored:
  assumes "log_file fs = Stored lg" and "writable fs"
  shows "logCheck fs m alerts =
           Inr (\<lparr>ck_timestamp = metrics.timestamp m, ck_metrics = m,
                 ck_alerts = (if alerts = [] then None else Some alerts)\<rparr>,
                fs\<lparr>log_file := Stored
                   (lg\<lparr>checks := slice_last 100 (checks lg @
                          [\<lparr>ck_timestamp = metrics.timestamp m, ck_metrics = m,
                            ck_alerts = (if alerts = [] then None else Some alerts)\<rparr>]),
                       totalChecks := totalChecks lg + 1,
                       totalAlerts := totalAlerts lg + length alerts\<rparr>)\<rparr>)"
  using assms by (simp add: logCheck_def Let_def push_def slice_last_def)

lemma logCheck_Inr:
  "logCheck fs m alerts = Inr r \<Longrightarrow> \<exists>lg. log_file fs = Stored lg \<and> writable fs"
  by (auto simp: logCheck_def Let_def split: log_file.splits if_splits)

text \<open>
  C3. Appending a check to any stored history (of any length) leaves at most 100 checks.
  The checks kept are the old ones followed by the new one with the oldest
  \<open>length + 1 - 100\<close> dropped from the front: what is removed is a prefix, what survives is
  the rest in its order, and nothing is removed while the history is below the cap.
\<close>

theorem logCheck_bounded_fifo:
  assumes "log_file fs = Stored lg" and "writable fs"
  shows "\<exists>check lg'. logCheck fs m alerts = Inr (check, fs\<lparr>log_file := Stored lg'\<rparr>) \<and>
           length (checks lg') \<le> 100 \<and>
           checks lg' = drop (length (checks lg) + 1 - 100) (checks lg @ [check]) \<and>
           take (length (checks lg) + 1 - 100) (checks lg @ [check]) @ checks lg'
             = checks lg @ [check] \<and>
           (length (checks lg) < 100 \<longrightarrow> checks lg' = checks lg @ [check]) \<and>
           totalChecks lg' = totalChecks lg + 1 \<and>
           totalAlerts lg' = totalAlerts lg + length alerts"
proof -
  define check where
    "check = \<lparr>ck_timestamp = metrics.timestamp m, ck_metrics = m,
              ck_alerts = (if alerts = [] then None else Some alerts)\<rparr>"
  define lg' where
    "lg' = lg\<lparr>checks := slice_last 100 (checks lg @ [check]),
              totalChecks := totalChecks lg + 1,
              totalAlerts := totalAlerts lg + length alerts\<rparr>"
  have run: "logCheck fs m alerts = Inr (check, fs\<lparr>log_file := Stored lg'\<rparr>)"
    unfolding check_def lg'_def by (rule logCheck_stored [OF assms])
  have kept: "checks lg' = drop (length (checks lg) + 1 - 100) (checks lg @ [check])"
    by (simp add: lg'_def slice_last_def)
  have len: "length (checks lg') \<le> 100"
    unfolding kept by simp
  have split: "take (length (checks lg) + 1 - 100) (checks lg @ [check]) @ checks lg'
                 = checks lg @ [check]"
    unfolding kept by (rule append_take_drop_id)
  have small: "length (checks lg) < 100 \<longrightarrow> checks lg' = checks lg @ [check]"
    unfolding kept by simp
  have counters: "totalChecks lg' = totalChecks lg + 1"
                 "totalAlerts lg' = totalAlerts lg + length alerts"
    by (simp_all add: lg'_def)
  from run len kept split small counters show ?thesis by blast
qed

theorem logCheck_bounded_fifo_witness:
  "log_file files_full = Stored logs_full \<and> writable files_full \<and>
   (\<exists>check lg'.
      logCheck files_full (getRealSystemMetrics os_951) []
        = Inr (check, files_full\<lparr>log_file := Stored lg'\<rparr>) \<and>
      length (checks lg') = 100 \<and>
      checks lg' = replicate 99 check_old @ [check]) \<and>
   log_file files_short = Stored logs_short \<and> writable files_short \<and>
   length (checks logs_short) < 100 \<and>
   (\<exists>check lg'.
      logCheck files_short (getRealSystemMetrics os_951) []
        = Inr (check, files_short\<lparr>log_file := Stored lg'\<rparr>) \<and>
      checks lg' = [check_old, check])"
proof -
  have s1: "log_file files_short = Stored logs_short" and s2: "writable files_short"
    and s3: "length (checks logs_short) < 100"
    by (simp_all add: files_short_def logs_short_def)
  from logCheck_bounded_fifo [OF s1 s2, of "getRealSystemMetrics os_951" "[]"] s3
  obtain check' lg'' where
    run': "logCheck files_short (getRealSystemMetrics os_951) []
            = Inr (check', files_short\<lparr>log_file := Stored lg''\<rparr>)"
    and kept': "checks lg'' = checks logs_short @ [check']"
    by blast
  have short: "\<exists>check lg'.
      logCheck files_short (getRealSystemMetrics os_951) []
        = Inr (check, files_short\<lparr>log_file := Stored lg'\<rparr>) \<and>
      checks lg' = [check_old, check]"
    using run' kept' by (auto simp: logs_short_def)
  have h1: "log_file files_full = Stored logs_full" and h2: "writable files_full"
    by (simp_all add: files_full_def)
  from logCheck_bounded_fifo [OF h1 h2, of "getRealSystemMetrics os_951" "[]"]
  obtain check lg' where
    run: "logCheck files_full (getRealSystemMetrics os_951) []
            = Inr (check, files_full\<lparr>log_file := Stored lg'\<rparr>)"
    and kept: "checks lg' = drop (length (checks logs_full) + 1 - 100) (checks logs_full @ [check])"
    by blast
  have "checks lg' = replicate 99 check_old @ [check]"
    unfolding kept by (simp add: logs_full_def)
  then have "\<exists>check lg'.
      logCheck files_full (getRealSystemMetrics os_951) []
        = Inr (check, files_full\<lparr>log_file := Stored lg'\<rparr>) \<and>
      length (checks lg') = 100 \<and>
      checks lg' = replicate 99 check_old @ [check]"
    using run by auto
  then show ?thesis using h1 h2 s1 s2 s3 short by (intro conjI)
qed

lemma summary_after_logCheck:
  assumes "logCheck fs m alerts = Inr (check, fs2)"
  shows "\<exists>s. generateSummary t1 fs2 = Inr s \<and>
             systemStatus s = (if alerts = [] then HEALTHY
                               else if hasCritical alerts then CRITICAL else WARNING) \<and>
             lastCheck s = Some (metrics.timestamp m)"
proof -
  from logCheck_Inr [OF assms] obtain lg where st: "log_file fs = Stored lg" and w: "writable fs"
    by blast
  show ?thesis
    using assms unfolding logCheck_stored [OF st w]
    by (auto simp: generateSummary_def Let_def status_of_last_def
                   last_slice_last slice_last_nonempty)
qed

lemma run_Success:
  assumes "runRealMonitoring t0 t1 os fs = (Success s m alerts, fs')"
  shows "m = getRealSystemMetrics os \<and> alerts = checkRealAlerts m \<and>
         (\<exists>fs1 check fs2. logCheck fs1 m alerts = Inr (check, fs2) \<and>
                          generateSummary t1 fs2 = Inr s)"
  using assms
  by (auto simp: runRealMonitoring_def Let_def split: sum.splits prod.splits)

text \<open>The cycle succeeds whenever the log file is absent or well formed and the files can
  be written, whatever the system answers.\<close>

lemma run_succeeds:
  assumes "log_file fs \<noteq> Corrupt" and "writable fs"
  shows "\<exists>s fs'. runRealMonitoring t0 t1 os fs =
           (Success s (getRealSystemMetrics os) (checkRealAlerts (getRealSystemMetrics os)), fs')"
proof -
  obtain fs1 lg where i: "initializeLogs t0 fs = Inr fs1" and st: "log_file fs1 = Stored lg"
    and w: "writable fs1"
    using assms by (cases "log_file fs") (auto simp: initializeLogs_def)
  let ?m = "getRealSystemMetrics os"
  let ?a = "checkRealAlerts ?m"
  from logCheck_stored [OF st w, of ?m ?a] obtain check fs2 where
    lc: "logCheck fs1 ?m ?a = Inr (check, fs2)" and w2: "writable fs2"
    using w by auto
  from summary_after_logCheck [OF lc, of t1] obtain s where gs: "generateSummary t1 fs2 = Inr s"
    by blast
  show ?thesis
    using i lc gs w2 by (simp add: runRealMonitoring_def Let_def createRealReport_def)
qed

lemma fallback_alerts: "checkRealAlerts (getFallbackMetrics ts) = [''High disk usage: 250GB'']"
  by (simp add: checkRealAlerts_def getFallbackMetrics_def Let_def push_def disk_alert_def
                show_int_250)

lemma fallback_timestamp: "metrics.timestamp (getFallbackMetrics ts) = ts"
  by (simp add: getFallbackMetrics_def)

lemma fallback_on_failure:
  "\<not> queries_ok os \<Longrightarrow> getRealSystemMetrics os = getFallbackMetrics (now_iso os)"
  by (auto simp: queries_ok_def getRealSystemMetrics_def Let_def split: option.splits)

lemma os_down_fallback:
  "getRealSystemMetrics os_down = getFallbackMetrics ''2026-01-01T00:00:00.000Z''"
  by (simp add: getRealSystemMetrics_def os_down_def os_951_def Let_def)

text \<open>
  C2, as the claim states it, fails: the cycle over the fallback metrics produces the one
  alert \<open>High disk usage: 250GB\<close>, which carries neither mark, and its overall health is
  WARNING, where the claim gives HEALTHY.
\<close>

theorem cycle_health_counterexample:
  "fst (runRealMonitoring ''2026-01-01T00:00:00.000Z'' ''2026-01-01T00:00:01.000Z'' os_down files_new)
     = Success \<lparr>sum_timestamp = ''2026-01-01T00:00:01.000Z'', sum_totalChecks = 1,
                sum_totalAlerts = 1, systemStatus = WARNING,
                lastCheck = Some ''2026-01-01T00:00:00.000Z''\<rparr>
               (getFallbackMetrics ''2026-01-01T00:00:00.000Z'')
               [''High disk usage: 250GB''] \<and>
   \<not> hasCritical [''High disk usage: 250GB''] \<and>
   \<not> hasWarning [''High disk usage: 250GB'']"
  by (simp add: runRealMonitoring_def initializeLogs_def files_new_def os_down_fallback
        fallback_alerts logCheck_def generateSummary_def createRealReport_def Let_def push_def
        status_of_last_def hasCritical_def hasWarning_def CRITICAL_MARK_def WARNING_MARK_def
        fallback_timestamp)

text \<open>
  C2, amended. For every cycle that completes, the alerts are those of the collected
  metrics and the overall health is CRITICAL exactly when an alert carries the CRITICAL
  mark, WARNING exactly when there is an alert and none carries the CRITICAL mark (marked
  WARNING or not), and HEALTHY exactly when there is no alert.
\<close>

theorem cycle_health_from_alerts:
  assumes "runRealMonitoring t0 t1 os fs = (Success s m alerts, fs')"
  shows "alerts = checkRealAlerts (getRealSystemMetrics os) \<and>
         (systemStatus s = CRITICAL \<longleftrightarrow> hasCritical alerts) \<and>
         (systemStatus s = WARNING \<longleftrightarrow> alerts \<noteq> [] \<and> \<not> hasCritical alerts) \<and>
         (systemStatus s = HEALTHY \<longleftrightarrow> alerts = [])"
proof -
  from run_Success [OF assms] obtain fs1 check fs2 where
    m: "m = getRealSystemMetrics os" and a: "alerts = checkRealAlerts m"
    and lc: "logCheck fs1 m alerts = Inr (check, fs2)"
    and gs: "generateSummary t1 fs2 = Inr s"
    by blast
  from summary_after_logCheck [OF lc, of t1] gs
  have st: "systemStatus s = (if alerts = [] then HEALTHY
                              else if hasCritical alerts then CRITICAL else WARNING)"
    by simp
  have nil: "alerts = [] \<Longrightarrow> \<not> hasCritical alerts"
    by (simp add: hasCritical_def)
  show ?thesis using m a st nil by auto
qed

theorem cycle_health_from_alerts_witness:
  "\<exists>s fs'. runRealMonitoring ''2026-01-01T00:00:00.000Z'' ''2026-01-01T00:00:01.000Z'' os_down files_new
            = (Success s (getFallbackMetrics ''2026-01-01T00:00:00.000Z'') [''High disk usage: 250GB''], fs')
          \<and> systemStatus s = WARNING"
proof -
  have "log_file files_new \<noteq> Corrupt" and "writable files_new"
    by (simp_all add: files_new_def)
  from run_succeeds [OF this, of "''2026-01-01T00:00:00.000Z''" "''2026-01-01T00:00:01.000Z''" os_down]
  obtain s fs' where
    run: "runRealMonitoring ''2026-01-01T00:00:00.000Z'' ''2026-01-01T00:00:01.000Z'' os_down files_new
            = (Success s (getFallbackMetrics ''2026-01-01T00:00:00.000Z'') [''High disk usage: 250GB''], fs')"
    by (auto simp: os_down_fallback fallback_alerts)
  from cycle_health_from_alerts [OF run] have "systemStatus s = WARNING"
    by (simp add: hasCritical_def CRITICAL_MARK_def)
  with run show ?thesis by blast
qed

section \<open>Metric failures\<close>

lemma os_twin_metrics:
  "getRealSystemMetrics os_twin =
     (getFallbackMetrics ''2026-01-01T00:00:00.000Z'')\<lparr>memoryUsage := 75\<rparr>"
  by (simp add: getRealSystemMetrics_def os_twin_def getFallbackMetrics_def Let_def
        Math_round_def toFixed_def GiB_def openclaw_status_of_def)

lemma os_psfail_count: "processCount (getRealSystemMetrics os_psfail) = - 1"
  by (simp add: getRealSystemMetrics_def os_psfail_def os_951_def Let_def)

text \<open>
  C8, as the claim states it, fails on both of its parts. The value returned when a query
  throws carries no mark: it is the successful collection of an ordinary machine in every
  field but the memory percentage, 85 in place of 75, itself an ordinary percentage. And
  not every failing query is replaced: when \<open>ps\<close> fails inside its pipeline nothing is
  thrown, and the collection returns its own values with the process count \<open>-1\<close>, not the
  fallback.
\<close>

theorem fallback_marked_counterexample:
  "\<not> queries_ok os_down \<and> queries_ok os_twin \<and>
   getRealSystemMetrics os_down = (getRealSystemMetrics os_twin)\<lparr>memoryUsage := 85\<rparr> \<and>
   queries_ok os_psfail \<and> ps_lines os_psfail = Some 0 \<and>
   processCount (getRealSystemMetrics os_psfail) = - 1 \<and>
   getRealSystemMetrics os_psfail \<noteq> getFallbackMetrics (now_iso os_psfail)"
proof -
  have q: "\<not> queries_ok os_down" "queries_ok os_twin" "queries_ok os_psfail"
          "ps_lines os_psfail = Some 0"
    by (simp_all add: queries_ok_def os_down_def os_twin_def os_psfail_def os_951_def)
  have e: "getRealSystemMetrics os_down = (getRealSystemMetrics os_twin)\<lparr>memoryUsage := 85\<rparr>"
    by (simp add: os_down_fallback os_twin_metrics) (simp add: getFallbackMetrics_def)
  have n: "getRealSystemMetrics os_psfail \<noteq> getFallbackMetrics (now_iso os_psfail)"
  proof
    assume "getRealSystemMetrics os_psfail = getFallbackMetrics (now_iso os_psfail)"
    then have "processCount (getRealSystemMetrics os_psfail)
                 = processCount (getFallbackMetrics (now_iso os_psfail))"
      by simp
    then show False by (simp add: os_psfail_count getFallbackMetrics_def)
  qed
  from q e os_psfail_count n show ?thesis by (intro conjI)
qed

text \<open>
  C8, amended. When a query of the system throws inside the \<open>try\<close> of
  \<open>getRealSystemMetrics\<close>, the error is not propagated: the collection returns the fixed
  value of \<open>getFallbackMetrics\<close> with the timestamp of the call, and the cycle around it
  completes on that value whenever the log file is absent or well formed and writable.
  A throw of the OpenClaw process query alone is absorbed as the status \<open>ERROR\<close>.
\<close>

theorem metric_failure_falls_back:
  "(\<not> queries_ok os \<longrightarrow>
      getRealSystemMetrics os = getFallbackMetrics (now_iso os) \<and>
      (log_file fs \<noteq> Corrupt \<and> writable fs \<longrightarrow>
         (\<exists>s fs'. runRealMonitoring t0 t1 os fs =
            (Success s (getFallbackMetrics (now_iso os))
                       (checkRealAlerts (getFallbackMetrics (now_iso os))), fs')))) \<and>
   (queries_ok os \<and> openclaw_lines os = None \<longrightarrow>
      openclawStatus (getRealSystemMetrics os) = ''ERROR'')"
proof -
  have a: "getRealSystemMetrics os = getFallbackMetrics (now_iso os)" if "\<not> queries_ok os"
    using that by (rule fallback_on_failure)
  have c: "\<exists>s fs'. runRealMonitoring t0 t1 os fs =
            (Success s (getFallbackMetrics (now_iso os))
                       (checkRealAlerts (getFallbackMetrics (now_iso os))), fs')"
    if "\<not> queries_ok os" "log_file fs \<noteq> Corrupt" "writable fs"
    using run_succeeds [OF that(2,3), of t0 t1 os] unfolding a [OF that(1)] .
  have d: "openclawStatus (getRealSystemMetrics os) = ''ERROR''"
    if "queries_ok os" "openclaw_lines os = None"
    using that by (simp add: real_memory_fields openclaw_status_of_def)
  show ?thesis using a c d by blast
qed

theorem metric_failure_falls_back_witness:
  "queries_ok os_noclaw \<and> openclaw_lines os_noclaw = None \<and>
   openclawStatus (getRealSystemMetrics os_noclaw) = ''ERROR'' \<and>
   \<not> queries_ok os_down \<and>
   log_file files_new \<noteq> Corrupt \<and> writable files_new \<and>
   getRealSystemMetrics os_down = getFallbackMetrics ''2026-01-01T00:00:00.000Z'' \<and>
   (\<exists>s fs'. runRealMonitoring ''2026-01-01T00:00:00.000Z'' ''2026-01-01T00:00:01.000Z'' os_down files_new =
       (Success s (getFallbackMetrics ''2026-01-01T00:00:00.000Z'')
                  (checkRealAlerts (getFallbackMetrics ''2026-01-01T00:00:00.000Z'')), fs'))"
proof -
  have h: "\<not> queries_ok os_down"
          "log_file files_new \<noteq> Corrupt" "writable files_new"
          "now_iso os_down = ''2026-01-01T00:00:00.000Z''"
    by (simp_all add: queries_ok_def os_down_def os_951_def files_new_def)
  have n: "queries_ok os_noclaw" "openclaw_lines os_noclaw = None"
    by (simp_all add: queries_ok_def os_noclaw_def os_951_def)
  show ?thesis
    using h n metric_failure_falls_back
            [of os_down files_new "''2026-01-01T00:00:00.000Z''" "''2026-01-01T00:00:01.000Z''"]
          metric_failure_falls_back [of os_noclaw]
    by auto
qed

section \<open>Probes\<close>

text \<open>
  C10. The pseudo-service whose configured URL is the marker \<open>local\<close> (the entry \<open>system\<close>
  of \<open>SERVICES\<close>) is reported healthy with the constant response time 1 and without an
  error field, whatever the clock and the network do, both by \<open>checkService\<close> and through
  the route \<open>/api/health/system\<close>.
\<close>

theorem local_probe_always_healthy:
  "checkService env nm (JString ''local'') =
     Inr \<lparr>name = nm, url = ''System'', status = healthy, svc_responseTime = 1,
          version = None, error = None, svc_timestamp = stamp env, emoji = EMOJI_LAPTOP\<rparr>
   \<and> get_property SERVICES ''system'' = JString ''local''
   \<and> api_health env ''system'' =
     HealthOk \<lparr>name = ''system'', url = ''System'', status = healthy, svc_responseTime = 1,
               version = None, error = None, svc_timestamp = stamp env,
               emoji = EMOJI_LAPTOP\<rparr>"
  by (simp add: checkService_def api_health_def get_property_def SERVICES_def falsy_def)

text \<open>
  C6, as the claim states it, fails: the response time is the difference of two readings
  of the wall clock, and a probe answered with 200 while the clock was set back by 10 ms
  is reported healthy with the response time \<open>-10\<close>.
\<close>

theorem negative_response_time_counterexample:
  "outcome probe_stepback = Responded 200 (Some ''2.1.0'') \<and>
   checkService probe_stepback ''ollama-api'' (JString ''http://localhost:3002/health'') =
     Inr \<lparr>name = ''ollama-api'', url = ''localhost:3002/health'', status = healthy,
          svc_responseTime = - 10, version = Some ''2.1.0'', error = None,
          svc_timestamp = ''2026-01-01T00:00:00.990Z'', emoji = EMOJI_LLAMA\<rparr>"
  by (simp add: checkService_def axios_get_def probe_stepback_def Let_def)

text \<open>
  C6, amended. A probe of a real URL always returns a status. When the request ends in a
  network error, in a timeout or in a response outside 200..299, the status is critical
  and the error field holds the message of the rejection; when it ends in a response
  inside 200..299, the status is healthy, there is no error field, and the response time
  is the difference of the two clock readings, which is not negative whenever the clock
  did not step back between them.
\<close>

theorem checkService_classifies_outcome:
  assumes "u \<noteq> ''local''"
  shows "\<exists>s. checkService env nm (JString u) = Inr s \<and> name s = nm \<and>
           (\<forall>msg. outcome env = NetworkError msg \<longrightarrow>
                  status s = critical \<and> error s = Some msg) \<and>
           (outcome env = TimedOut \<longrightarrow>
                  status s = critical \<and> error s = Some ''timeout of 5000ms exceeded'') \<and>
           (\<forall>code v. outcome env = Responded code v \<and> \<not> (200 \<le> code \<and> code < 300) \<longrightarrow>
                  status s = critical \<and>
                  error s = Some (''Request failed with status code '' @ show_nat code)) \<and>
           (\<forall>code v. outcome env = Responded code v \<and> 200 \<le> code \<and> code < 300 \<longrightarrow>
                  status s = healthy \<and> error s = None \<and>
                  svc_responseTime s = end_ms env - start_ms env \<and>
                  (start_ms env \<le> end_ms env \<longrightarrow> 0 \<le> svc_responseTime s))"
  using assms
  by (cases "outcome env") (simp_all add: checkService_def axios_get_def Let_def)

theorem checkService_classifies_outcome_witness:
  "''http://localhost:3002/health'' \<noteq> ''local'' \<and>
   (\<exists>s. checkService probe_ok ''ollama-api'' (JString ''http://localhost:3002/health'') = Inr s
        \<and> status s = healthy \<and> error s = None \<and> svc_responseTime s = 12) \<and>
   (\<exists>s. checkService probe_timeout ''ollama-api'' (JString ''http://localhost:3002/health'') = Inr s
        \<and> status s = critical \<and> error s = Some ''timeout of 5000ms exceeded'')"
proof -
  have h: "''http://localhost:3002/health'' \<noteq> ''local''" by simp
  show ?thesis
    using checkService_classifies_outcome [OF h, of probe_ok "''ollama-api''"]
          checkService_classifies_outcome [OF h, of probe_timeout "''ollama-api''"]
    by (auto simp: probe_ok_def probe_timeout_def)
qed

section \<open>The routes of the dashboard\<close>

subsection \<open>The join\<close>

lemma settle_fulfilled:
  assumes "length slots = length vs"
    and "\<forall>i<length vs. slots ! i = (if i \<in> D then Some (vs ! i) else None)"
  shows "\<exists>slots'. settle order (map Inr vs :: ('e + 'a) list) slots = Inr slots' \<and>
           length slots' = length vs \<and>
           (\<forall>i<length vs. slots' ! i = (if i \<in> D \<union> set order then Some (vs ! i) else None))"
  using assms
proof (induction order arbitrary: slots D)
  case Nil
  then show ?case by simp
next
  case (Cons j rest)
  show ?case
  proof (cases "j < length vs")
    case True
    let ?slots = "slots[j := Some (vs ! j)]"
    have len: "length ?slots = length vs" using Cons.prems(1) by simp
    have inv: "\<forall>i<length vs. ?slots ! i = (if i \<in> insert j D then Some (vs ! i) else None)"
      using Cons.prems True by (auto simp: nth_list_update)
    from Cons.IH [OF len inv] obtain slots' where
      "settle rest (map Inr vs :: ('e + 'a) list) ?slots = Inr slots'" "length slots' = length vs"
      "\<forall>i<length vs. slots' ! i = (if i \<in> insert j D \<union> set rest then Some (vs ! i) else None)"
      by blast
    then show ?thesis using True by auto
  next
    case False
    from Cons.IH [OF Cons.prems] obtain slots' where
      "settle rest (map Inr vs :: ('e + 'a) list) slots = Inr slots'" "length slots' = length vs"
      "\<forall>i<length vs. slots' ! i = (if i \<in> D \<union> set rest then Some (vs ! i) else None)"
      by blast
    then show ?thesis using False by auto
  qed
qed

lemma Promise_all_fulfilled:
  assumes "{..<length vs} \<subseteq> set order"
  shows "Promise_all order (map Inr vs :: ('e + 'a) list) = Fulfilled vs"
proof -
  have "\<forall>i<length vs. replicate (length vs) None ! i = (if i \<in> {} then Some (vs ! i) else None)"
    by simp
  from settle_fulfilled [OF _ this, of order] obtain slots' where
    s: "settle order (map Inr vs :: ('e + 'a) list) (replicate (length vs) None) = Inr slots'"
    and len: "length slots' = length vs"
    and full: "\<forall>i<length vs. slots' ! i = (if i \<in> {} \<union> set order then Some (vs ! i) else None)"
    by auto
  have each: "slots' ! i = Some (vs ! i)" if "i < length vs" for i
    using full that assms by auto
  have all: "list_all (\<lambda>s. s \<noteq> None) slots'"
    unfolding list_all_length using each len by simp
  have "map the slots' = vs"
    by (rule nth_equalityI) (use each len in auto)
  then show ?thesis using s all by (simp add: Promise_all_def)
qed

lemma checkService_string:
  "checkService env nm (JString u) = Inr (projr (checkService env nm (JString u)))"
  by (cases "axios_get (outcome env)") (simp_all add: checkService_def Let_def)

lemma checkService_name: "name (projr (checkService env nm (JString u))) = nm"
  by (cases "axios_get (outcome env)") (simp_all add: checkService_def Let_def)

lemma checkService_critical:
  "status (projr (checkService env nm (JString u))) = critical \<longleftrightarrow>
     u \<noteq> ''local'' \<and> isl (axios_get (outcome env))"
  by (cases "axios_get (outcome env)") (simp_all add: checkService_def Let_def)

lemma checkService_error:
  "error (projr (checkService env nm (JString u))) \<noteq> None \<longleftrightarrow>
     status (projr (checkService env nm (JString u))) = critical"
  by (cases "axios_get (outcome env)") (simp_all add: checkService_def Let_def)

lemma task_value:
  "(case e of (nm, u) \<Rightarrow> checkService (probe env nm) nm (JString u)) = Inr (probed env e)"
  by (cases e) (simp add: probed_def checkService_string [symmetric])

lemma tasks_are_values:
  "map (\<lambda>(nm, u). checkService (probe env nm) nm (JString u)) entries
     = map Inr (map (probed env) entries)"
  by (simp add: task_value)

lemma api_status_for_ok:
  assumes "getSystemMetrics (sys env) = Inr sm" and "{..<length entries} \<subseteq> set (completion env)"
  shows "\<exists>snap. api_status_for entries env = StatusOk snap \<and> system snap = sm \<and>
           services snap = map (probed env) entries"
proof -
  have "Promise_all (completion env)
          (map Inr (map (probed env) entries) :: (js_error + service_status) list)
          = Fulfilled (map (probed env) entries)"
    by (rule Promise_all_fulfilled) (use assms(2) in simp)
  then show ?thesis using assms(1) by (simp add: api_status_for_def tasks_are_values)
qed

lemma getSystemMetrics_Inl:
  "getSystemMetrics env = Inl msg \<longleftrightarrow>
     statfsSync env (if sys_platform env = ''darwin'' then ''/System/Volumes/Data'' else ''/'')
       = Inl msg"
  by (simp add: getSystemMetrics_def Let_def split: sum.splits)

lemma getSystemMetrics_Inr:
  "statfsSync env (if sys_platform env = ''darwin'' then ''/System/Volumes/Data'' else ''/'')
     = Inr st \<Longrightarrow> \<exists>sm. getSystemMetrics env = Inr sm"
  by (simp add: getSystemMetrics_def Let_def)

lemma sample_metrics_ok: "\<exists>sm. getSystemMetrics sys_ok = Inr sm"
  by (rule getSystemMetrics_Inr [where st = "\<lparr>blocks = 1000000, bsize = 4096, bfree = 500000\<rparr>"])
     (simp add: sys_ok_def)

lemma sample_all_settle: "{..<length SERVICES} \<subseteq> set [3, 1, 0, 2]"
  by (auto simp: SERVICES_def)

text \<open>
  C4. Whenever the system metrics are read and every probe settles, in whatever order
  (\<open>completion env\<close> is any list that holds every index), the reply of \<open>/api/status\<close> is a
  snapshot whose services are as many as the entries of the services object, carry the
  names of the entries in the order of the entries, and are the statuses of the probes
  of the entries, a value in which the order of completion does not occur.
\<close>

theorem status_services_in_configured_order:
  assumes "getSystemMetrics (sys env) = Inr sm"
    and "{..<length entries} \<subseteq> set (completion env)"
  shows "\<exists>snap. api_status_for entries env = StatusOk snap \<and>
           length (services snap) = length entries \<and>
           map name (services snap) = map fst entries \<and>
           services snap = map (probed env) entries"
proof -
  from api_status_for_ok [OF assms] obtain snap where
    ok: "api_status_for entries env = StatusOk snap"
    and sv: "services snap = map (probed env) entries"
    by blast
  have "map name (map (probed env) entries) = map fst entries"
    by (simp add: probed_def checkService_name)
  with ok sv show ?thesis by simp
qed


theorem status_services_in_configured_order_witness:
  "(\<exists>sm. getSystemMetrics (sys status_env_sample) = Inr sm) \<and>
   {..<length SERVICES} \<subseteq> set (completion status_env_sample) \<and>
   (\<exists>snap. api_status status_env_sample = StatusOk snap \<and>
      map name (services snap) =
        [''ollama-api'', ''super-product'', ''kimi-integration'', ''system''] \<and>
      map status (services snap) = [healthy, critical, healthy, healthy])"
proof -
  obtain sm where sm: "getSystemMetrics (sys status_env_sample) = Inr sm"
    using sample_metrics_ok by (auto simp: status_env_sample_def)
  have c: "{..<length SERVICES} \<subseteq> set (completion status_env_sample)"
    using sample_all_settle by (simp add: status_env_sample_def)
  from status_services_in_configured_order [OF sm c] obtain snap where
    ok: "api_status_for SERVICES status_env_sample = StatusOk snap"
    and nm: "map name (services snap) = map fst SERVICES"
    and sv: "services snap = map (probed status_env_sample) SERVICES"
    by blast
  have "map status (services snap) = [healthy, critical, healthy, healthy]"
    unfolding sv
    by (simp add: SERVICES_def probed_def status_env_sample_def checkService_def Let_def
          axios_get_def probe_ok_def probe_timeout_def)
  with sm c ok nm show ?thesis by (auto simp: api_status_def SERVICES_def)
qed

text \<open>
  C5, as the claim states it, fails: when \<open>fs.statfsSync\<close> throws inside
  \<open>getSystemMetrics\<close>, the handler of \<open>/api/status\<close> reaches its \<open>catch\<close> and replies with
  the status 500 and the error message in place of the snapshot.
\<close>

theorem status_error_counterexample:
  "api_status (status_env_sample\<lparr>sys := sys_nodisk\<rparr>)
     = StatusError ''ENOENT: no such file or directory, statfs''"
  by (simp add: api_status_def api_status_for_def getSystemMetrics_def Let_def
        status_env_sample_def sys_nodisk_def sys_ok_def)

text \<open>
  C5, amended. A failure of the system metrics source (\<open>fs.statfsSync\<close> throwing, the only
  throw of \<open>getSystemMetrics\<close>) makes \<open>/api/status\<close> reply with an error in place of the
  snapshot. With the system metrics read and every probe settled, every combination of
  failing probes still gives a snapshot: each service is critical, with an error field,
  exactly when it is not the local marker and its request was rejected, and healthy
  otherwise.
\<close>

theorem status_reply_on_failures:
  "(\<forall>msg. getSystemMetrics (sys env) = Inl msg \<longrightarrow> api_status_for entries env = StatusError msg) \<and>
   (\<forall>sm. getSystemMetrics (sys env) = Inr sm \<and> {..<length entries} \<subseteq> set (completion env) \<longrightarrow>
      (\<exists>snap. api_status_for entries env = StatusOk snap \<and> system snap = sm \<and>
         list_all2
           (\<lambda>e st. name st = fst e \<and>
                   (status st = critical \<longleftrightarrow>
                      snd e \<noteq> ''local'' \<and> isl (axios_get (outcome (probe env (fst e))))) \<and>
                   (status st = critical \<longleftrightarrow> error st \<noteq> None) \<and>
                   (status st = critical \<or> status st = healthy))
           entries (services snap))) \<and>
   (getSystemMetrics (sys env) = Inl msg' \<longleftrightarrow>
      statfsSync (sys env)
        (if sys_platform (sys env) = ''darwin'' then ''/System/Volumes/Data'' else ''/'')
        = Inl msg')"
proof -
  have a: "api_status_for entries env = StatusError msg" if "getSystemMetrics (sys env) = Inl msg"
    for msg using that by (simp add: api_status_for_def)
  have each: "name (probed env e) = fst e \<and>
              (status (probed env e) = critical \<longleftrightarrow>
                 snd e \<noteq> ''local'' \<and> isl (axios_get (outcome (probe env (fst e))))) \<and>
              (status (probed env e) = critical \<longleftrightarrow> error (probed env e) \<noteq> None) \<and>
              (status (probed env e) = critical \<or> status (probed env e) = healthy)" for e
    unfolding probed_def
    by (cases "axios_get (outcome (probe env (fst e)))")
       (simp_all add: checkService_def Let_def)
  have b: "\<exists>snap. api_status_for entries env = StatusOk snap \<and> system snap = sm \<and>
         list_all2
           (\<lambda>e st. name st = fst e \<and>
                   (status st = critical \<longleftrightarrow>
                      snd e \<noteq> ''local'' \<and> isl (axios_get (outcome (probe env (fst e))))) \<and>
                   (status st = critical \<longleftrightarrow> error st \<noteq> None) \<and>
                   (status st = critical \<or> status st = healthy))
           entries (services snap)"
    if "getSystemMetrics (sys env) = Inr sm" "{..<length entries} \<subseteq> set (completion env)" for sm
  proof -
    from api_status_for_ok [OF that] obtain snap where
      ok: "api_status_for entries env = StatusOk snap" "system snap = sm"
      and sv: "services snap = map (probed env) entries"
      by blast
    have "list_all2
           (\<lambda>e st. name st = fst e \<and>
                   (status st = critical \<longleftrightarrow>
                      snd e \<noteq> ''local'' \<and> isl (axios_get (outcome (probe env (fst e))))) \<and>
                   (status st = critical \<longleftrightarrow> error st \<noteq> None) \<and>
                   (status st = critical \<or> status st = healthy))
           entries (services snap)"
      unfolding sv list_all2_map2 list_all2_same using each by blast
    with ok show ?thesis by blast
  qed
  show ?thesis using a b getSystemMetrics_Inl [of "sys env" msg'] by blast
qed

theorem status_reply_on_failures_witness:
  "getSystemMetrics (sys (status_env_sample\<lparr>sys := sys_nodisk\<rparr>))
     = Inl ''ENOENT: no such file or directory, statfs'' \<and>
   api_status_for SERVICES (status_env_sample\<lparr>sys := sys_nodisk\<rparr>)
     = StatusError ''ENOENT: no such file or directory, statfs'' \<and>
   (\<exists>sm. getSystemMetrics (sys status_env_down) = Inr sm) \<and>
   {..<length SERVICES} \<subseteq> set (completion status_env_down) \<and>
   (\<exists>snap. api_status_for SERVICES status_env_down = StatusOk snap \<and>
      map status (services snap) = [critical, critical, critical, healthy])"
proof -
  let ?e = "status_env_sample\<lparr>sys := sys_nodisk\<rparr>"
  have f: "getSystemMetrics (sys ?e) = Inl ''ENOENT: no such file or directory, statfs''"
    by (simp add: getSystemMetrics_Inl sys_nodisk_def sys_ok_def)
  with status_reply_on_failures [of ?e SERVICES]
  have r: "api_status_for SERVICES ?e = StatusError ''ENOENT: no such file or directory, statfs''"
    by blast
  obtain sm where sm: "getSystemMetrics (sys status_env_down) = Inr sm"
    using sample_metrics_ok by (auto simp: status_env_down_def status_env_sample_def)
  have c: "{..<length SERVICES} \<subseteq> set (completion status_env_down)"
    using sample_all_settle by (simp add: status_env_down_def status_env_sample_def)
  from status_reply_on_failures [of status_env_down SERVICES] sm c
  obtain snap where ok: "api_status_for SERVICES status_env_down = StatusOk snap"
    and each: "list_all2
           (\<lambda>e st. name st = fst e \<and>
                   (status st = critical \<longleftrightarrow>
                      snd e \<noteq> ''local'' \<and>
                      isl (axios_get (outcome (probe status_env_down (fst e))))) \<and>
                   (status st = critical \<longleftrightarrow> error st \<noteq> None) \<and>
                   (status st = critical \<or> status st = healthy))
           SERVICES (services snap)"
    by blast
  have t: "isl (axios_get (outcome (probe status_env_down nm)))" for nm
    by (simp add: status_env_down_def probe_timeout_def axios_get_def)
  from each have "map status (services snap) = [critical, critical, critical, healthy]"
    by (auto simp: SERVICES_def list_all2_Cons1 t)
  then have "\<exists>snap. api_status_for SERVICES status_env_down = StatusOk snap \<and>
      map status (services snap) = [critical, critical, critical, healthy]"
    using ok by (intro exI conjI)
  moreover have "\<exists>sm. getSystemMetrics (sys status_env_down) = Inr sm"
    using sm by (rule exI)
  ultimately show ?thesis using f r c by (intro conjI)
qed

subsection \<open>The health route\<close>

text \<open>
  C7. The route looks the name up with \<open>SERVICES[service]\<close>, which also finds the members
  every object inherits. For the name \<open>constructor\<close>, which is not configured, the value
  read is a function: it is truthy, so no 404 is sent; \<open>checkService\<close> is called with it
  and rejects with a TypeError that the handler does not catch.
\<close>

theorem health_route_inherited_name:
  "map_of SERVICES ''constructor'' = None \<and>
   get_property SERVICES ''constructor'' = JObject \<and>
   api_health env ''constructor'' = HealthUnhandled TypeError"
  by (simp add: api_health_def get_property_def SERVICES_def Object_prototype_keys_def
        falsy_def checkService_def)

text \<open>For a configured name the route replies with the status of that service, and for a
  name that is neither configured nor inherited it replies 404 without a probe.\<close>

lemma api_health_configured:
  assumes "map_of SERVICES service = Some u"
  shows "api_health env service = HealthOk (projr (checkService env service (JString u)))"
proof -
  from assms have "(service, u) \<in> set SERVICES" by (rule map_of_SomeD)
  then have "u \<noteq> []" by (auto simp: SERVICES_def)
  then have "\<not> falsy (JString u)" by (simp add: falsy_def)
  moreover have "get_property SERVICES service = JString u"
    using assms by (simp add: get_property_def)
  ultimately have "api_health env service =
      (case checkService env service (JString u) of
         Inr st \<Rightarrow> HealthOk st | Inl e \<Rightarrow> HealthUnhandled e)"
    by (simp add: api_health_def)
  then show ?thesis
    by (subst (asm) checkService_string) simp
qed

lemma api_health_plain_unknown:
  assumes "map_of SERVICES service = None" and "service \<notin> set Object_prototype_keys"
  shows "api_health env service = HealthNotFound ''Service not found''"
  using assms by (simp add: api_health_def get_property_def falsy_def)


end
